theory Spec2Isabelle
  imports Complex_Main
begin

section \<open>The traffic light detector node (tl\_detector.py)\<close>

text \<open>
  A shallow embedding of the class \<open>TLDetector\<close>. The object is a record that every
  callback takes and returns. Three capabilities live outside the file and are parameters
  of the functions that call them:
  \<^item> \<open>KDTree\<close>: the constructor of scipy's k-d tree (it may raise, hence a sum);
  \<^item> \<open>query\<close>: \<open>tree.query([x, y], 1)[1]\<close>, the index scipy answers for a point;
  \<^item> \<open>classify\<close>: \<open>bridge.imgmsg_to_cv2\<close> followed by
    \<open>light_classifier.get_classification\<close>, applied to what \<open>camera_image\<close> holds.
  The clock \<open>timer()\<close> is read twice in \<open>image_cb\<close>; the two readings are arguments.
  Clock readings and coordinates are Python floats; they are modelled as reals (the
  coordinates are only handed to the tree, the readings are subtracted and compared).
  Calls of \<open>rospy.loginfo\<close> are left out.
\<close>

subsection \<open>Constants\<close>

definition STATE_COUNT_THRESHOLD :: int where
  "STATE_COUNT_THRESHOLD = 3"

definition CAMERA_IMG_PROCESS_RATE :: real where
  "CAMERA_IMG_PROCESS_RATE = 1 / 2"

definition WAYPOINT_DIFFERENCE :: int where
  "WAYPOINT_DIFFERENCE = 300"

subsection \<open>Data\<close>

text \<open>
  Modelled from the spec: the message declaration \<open>styx_msgs/TrafficLight\<close> with the
  constants \<open>RED\<close>, \<open>YELLOW\<close>, \<open>GREEN\<close>, \<open>UNKNOWN\<close> is not under src/; the spec
  gives the enumeration of classification results.
\<close>

datatype TrafficLight = RED | YELLOW | GREEN | UNKNOWN

text \<open>
  What \<open>get_light_state\<close> can return, and what the fields \<open>state\<close> and \<open>last_state\<close>
  hold: a classification, or Python's \<open>False\<close>. The integer values of the message
  constants are declared outside the file, so \<open>False\<close> is kept as a value of its own.
\<close>

datatype light_state = PyFalse | Light TrafficLight

datatype error = IndexError | AttributeError | ValueError

type_synonym point = "real \<times> real"

text \<open>
  The fields of \<open>self\<close>. A message is kept as the part of it the code reads: a pose as
  its position \<open>(x, y)\<close>, a lane as the list of the positions of its waypoints, the
  configuration as its entry \<open>stop_line_positions\<close>. The publisher is the list of the
  values published on \<open>/traffic_waypoint\<close> so far (oldest first), the classifier the
  number of classifications it has run. \<open>prev_light_loc\<close> is an attribute that exists
  only once \<open>get_light_state\<close> has assigned \<open>None\<close> to it.
\<close>

record ('img, 'light, 'tree) TLDetector =
  pose :: "point option"
  waypoints :: "point list option"
  camera_image :: "'img option"
  lights :: "'light list"
  waypoints_2d :: "point list option"
  waypoint_tree :: "'tree option"
  config :: "point list"
  upcoming_red_light_pub :: "int list"
  light_classifier :: nat
  last_state :: light_state
  last_light_state :: "light_state option"
  last_wp :: int
  state_count :: int
  has_image :: bool
  state :: light_state
  last_img_processed :: real
  prev_light_loc :: "unit option"

subsection \<open>Construction and the three storing callbacks\<close>

definition TLDetector_init :: "point list \<Rightarrow> ('img, 'light, 'tree) TLDetector" where
  "TLDetector_init stop_line_positions =
     \<lparr> pose = None, waypoints = None, camera_image = None, lights = [],
       waypoints_2d = None, waypoint_tree = None, config = stop_line_positions,
       upcoming_red_light_pub = [], light_classifier = 0,
       last_state = Light UNKNOWN, last_light_state = None, last_wp = - 1,
       state_count = 0, has_image = False, state = Light UNKNOWN,
       last_img_processed = 0, prev_light_loc = None \<rparr>"

definition pose_cb ::
  "point \<Rightarrow> ('img, 'light, 'tree) TLDetector \<Rightarrow> ('img, 'light, 'tree) TLDetector" where
  "pose_cb msg s = s\<lparr>pose := Some msg\<rparr>"

text \<open>Python's truth value of \<open>self.waypoints_2d\<close>: \<open>None\<close> and the empty list are false.\<close>

fun truthy :: "'a list option \<Rightarrow> bool" where
  "truthy None = False"
| "truthy (Some []) = False"
| "truthy (Some (x # xs)) = True"

text \<open>
  \<open>waypoints_cb\<close> stores the message first, whatever the guard says. When the
  constructor of the tree raises, \<open>waypoints_2d\<close> has been assigned already and
  \<open>waypoint_tree\<close> has not.
\<close>

definition waypoints_cb ::
  "(point list \<Rightarrow> error + 'tree) \<Rightarrow> point list \<Rightarrow> ('img, 'light, 'tree) TLDetector
   \<Rightarrow> ('img, 'light, 'tree) TLDetector \<times> error option" where
  "waypoints_cb KDTree wps s =
     (let s1 = s\<lparr>waypoints := Some wps\<rparr> in
      if \<not> truthy (waypoints_2d s1) then
        (let xys = map (\<lambda>wpt. (fst wpt, snd wpt)) wps;
             s2 = s1\<lparr>waypoints_2d := Some xys\<rparr>
         in case KDTree xys of
              Inl e \<Rightarrow> (s2, Some e)
            | Inr t \<Rightarrow> (s2\<lparr>waypoint_tree := Some t\<rparr>, None))
      else (s1, None))"

definition traffic_cb ::
  "'light list \<Rightarrow> ('img, 'light, 'tree) TLDetector \<Rightarrow> ('img, 'light, 'tree) TLDetector" where
  "traffic_cb msg s = s\<lparr>lights := msg\<rparr>"

subsection \<open>Closest waypoint, light state, and the scan over the lights\<close>

definition get_closest_waypoint ::
  "('tree \<Rightarrow> point \<Rightarrow> int) \<Rightarrow> ('img, 'light, 'tree) TLDetector \<Rightarrow> real \<Rightarrow> real \<Rightarrow> error + int" where
  "get_closest_waypoint query s x y =
     (case waypoint_tree s of
        None \<Rightarrow> Inl AttributeError
      | Some t \<Rightarrow> Inr (query t (x, y)))"

definition get_light_state ::
  "('img option \<Rightarrow> TrafficLight) \<Rightarrow> ('img, 'light, 'tree) TLDetector \<Rightarrow> 'light
   \<Rightarrow> ('img, 'light, 'tree) TLDetector \<times> light_state" where
  "get_light_state classify s light =
     (if has_image s = False then (s\<lparr>prev_light_loc := Some ()\<rparr>, PyFalse)
      else
        (let result = Light (classify (camera_image s));
             s1 = s\<lparr>light_classifier := Suc (light_classifier s)\<rparr>;
             s2 = (if last_light_state s1 \<noteq> Some result
                   then s1\<lparr>last_light_state := Some result\<rparr> else s1)
         in (s2, result)))"

text \<open>
  The loop of \<open>process_traffic_lights\<close> over \<open>enumerate(self.lights)\<close>. The variables
  \<open>closest_light\<close> and \<open>line_wp_idx\<close> are assigned together, so they are one optional
  pair. \<open>stop_line_positions[i]\<close> raises \<open>IndexError\<close> beyond the end of the list.
\<close>

fun lights_loop ::
  "(real \<Rightarrow> real \<Rightarrow> error + int) \<Rightarrow> point list \<Rightarrow> int \<Rightarrow> nat \<Rightarrow> 'light list
   \<Rightarrow> int \<times> ('light \<times> int) option \<Rightarrow> error + (int \<times> ('light \<times> int) option)" where
  "lights_loop gcw stop_line_positions car_wp_idx i [] acc = Inr acc"
| "lights_loop gcw stop_line_positions car_wp_idx i (light # rest) (diff, closest) =
     (if length stop_line_positions \<le> i then Inl IndexError
      else
        (let line = stop_line_positions ! i in
         case gcw (fst line) (snd line) of
           Inl e \<Rightarrow> Inl e
         | Inr temp_wp_idx \<Rightarrow>
             (let d = temp_wp_idx - car_wp_idx in
              if d \<ge> 0 \<and> d < diff
              then lights_loop gcw stop_line_positions car_wp_idx (Suc i) rest
                     (d, Some (light, temp_wp_idx))
              else lights_loop gcw stop_line_positions car_wp_idx (Suc i) rest
                     (diff, closest))))"

text \<open>
  \<open>process_traffic_lights\<close>. The test of line 174 is written inside the branch where
  the pose and the tree exist; outside of it \<open>closest_light\<close> is still \<open>None\<close> and the
  function returns \<open>(-1, UNKNOWN)\<close>. The result is the exception raised, or the object,
  the waypoint and the state.
\<close>

definition process_traffic_lights ::
  "('tree \<Rightarrow> point \<Rightarrow> int) \<Rightarrow> ('img option \<Rightarrow> TrafficLight) \<Rightarrow> ('img, 'light, 'tree) TLDetector
   \<Rightarrow> error + (('img, 'light, 'tree) TLDetector \<times> int \<times> light_state)" where
  "process_traffic_lights query classify s =
     (let stop_line_positions = config s in
      case (pose s, waypoint_tree s) of
        (Some p, Some t) \<Rightarrow>
          (case get_closest_waypoint query s (fst p) (snd p) of
             Inl e \<Rightarrow> Inl e
           | Inr car_wp_idx \<Rightarrow>
               (case waypoints s of
                  None \<Rightarrow> Inl AttributeError
                | Some wps \<Rightarrow>
                    (case lights_loop (get_closest_waypoint query s) stop_line_positions
                            car_wp_idx 0 (lights s) (int (length wps), None) of
                       Inl e \<Rightarrow> Inl e
                     | Inr (diff, None) \<Rightarrow> Inr (s, - 1, Light UNKNOWN)
                     | Inr (diff, Some (closest_light, line_wp_idx)) \<Rightarrow>
                         (if line_wp_idx - car_wp_idx \<le> WAYPOINT_DIFFERENCE
                          then (let (s', st) = get_light_state classify s closest_light
                                in Inr (s', line_wp_idx, st))
                          else Inr (s, - 1, Light UNKNOWN)))))
      | _ \<Rightarrow> Inr (s, - 1, Light UNKNOWN))"

subsection \<open>The image callback\<close>

text \<open>
  Lines 103 to 113 of \<open>image_cb\<close>: the counter of consecutive equal states and the
  publication. The first branch publishes nothing.
\<close>

definition publish_state ::
  "int \<Rightarrow> light_state \<Rightarrow> ('img, 'light, 'tree) TLDetector \<Rightarrow> ('img, 'light, 'tree) TLDetector" where
  "publish_state light_wp st s =
     (let s' =
        (if state s \<noteq> st then s\<lparr>state_count := 0, state := st\<rparr>
         else if state_count s \<ge> STATE_COUNT_THRESHOLD then
           (let light_wp' = (if st = Light RED then light_wp else - 1) in
            s\<lparr>last_state := state s, last_wp := light_wp',
              upcoming_red_light_pub := upcoming_red_light_pub s @ [light_wp']\<rparr>)
         else s\<lparr>upcoming_red_light_pub := upcoming_red_light_pub s @ [last_wp s]\<rparr>)
      in s'\<lparr>state_count := state_count s' + 1\<rparr>)"

text \<open>
  \<open>image_cb msg\<close> with the two clock readings \<open>t1\<close> (line 86) and \<open>t2\<close> (line 94).
  The result is the object after the call and the exception that left it, if any; the
  assignments made before an exception stay.
\<close>

definition image_cb ::
  "('tree \<Rightarrow> point \<Rightarrow> int) \<Rightarrow> ('img option \<Rightarrow> TrafficLight) \<Rightarrow> 'img \<Rightarrow> real \<Rightarrow> real
   \<Rightarrow> ('img, 'light, 'tree) TLDetector \<Rightarrow> ('img, 'light, 'tree) TLDetector \<times> error option" where
  "image_cb query classify msg t1 t2 s =
     (if waypoint_tree s = None then (s, None)
      else
        (let time_elapsed = t1 - last_img_processed s in
         if time_elapsed < CAMERA_IMG_PROCESS_RATE then (s, None)
         else
           (let s1 = s\<lparr>has_image := True, camera_image := Some msg,
                       last_img_processed := t2\<rparr>
            in case process_traffic_lights query classify s1 of
                 Inl e \<Rightarrow> (s1, Some e)
               | Inr (s2, light_wp, st) \<Rightarrow> (publish_state light_wp st s2, None))))"

subsection \<open>Runs of the node\<close>

datatype ('img, 'light) event =
  PoseMsg point
| LaneMsg "point list"
| LightsMsg "'light list"
| ImageMsg 'img real real

fun deliver ::
  "(point list \<Rightarrow> error + 'tree) \<Rightarrow> ('tree \<Rightarrow> point \<Rightarrow> int) \<Rightarrow> ('img option \<Rightarrow> TrafficLight)
   \<Rightarrow> ('img, 'light, 'tree) TLDetector \<Rightarrow> ('img, 'light) event \<Rightarrow> ('img, 'light, 'tree) TLDetector" where
  "deliver KDTree query classify s (PoseMsg p) = pose_cb p s"
| "deliver KDTree query classify s (LaneMsg wps) = fst (waypoints_cb KDTree wps s)"
| "deliver KDTree query classify s (LightsMsg ls) = traffic_cb ls s"
| "deliver KDTree query classify s (ImageMsg msg t1 t2) = fst (image_cb query classify msg t1 t2 s)"

definition run ::
  "(point list \<Rightarrow> error + 'tree) \<Rightarrow> ('tree \<Rightarrow> point \<Rightarrow> int) \<Rightarrow> ('img option \<Rightarrow> TrafficLight)
   \<Rightarrow> point list \<Rightarrow> ('img, 'light) event list \<Rightarrow> ('img, 'light, 'tree) TLDetector" where
  "run KDTree query classify stop_line_positions evs =
     foldl (deliver KDTree query classify) (TLDetector_init stop_line_positions) evs"

text \<open>The values a call has published: what it appended to the publisher's list.\<close>

definition published_by ::
  "('img, 'light, 'tree) TLDetector \<Rightarrow> ('img, 'light, 'tree) TLDetector \<Rightarrow> int list" where
  "published_by s s' = drop (length (upcoming_red_light_pub s)) (upcoming_red_light_pub s')"

subsection \<open>Stand-ins for the outside capabilities at concrete inputs\<close>

text \<open>
  The theorems below hold for every constructor, query and classifier. Where a theorem is
  applied to a concrete run, the tree is the list of its points, the constructor refuses
  the empty list, and the query is a linear scan for the first point at the least squared
  distance.
\<close>

definition list_tree :: "point list \<Rightarrow> error + point list" where
  "list_tree pts = (if pts = [] then Inl ValueError else Inr pts)"

definition dist2 :: "point \<Rightarrow> point \<Rightarrow> real" where
  "dist2 p q = (fst p - fst q) * (fst p - fst q) + (snd p - snd q) * (snd p - snd q)"

fun scan :: "point \<Rightarrow> point list \<Rightarrow> int \<Rightarrow> int \<Rightarrow> real \<Rightarrow> int" where
  "scan p [] i best bd = best"
| "scan p (q # qs) i best bd =
     (if dist2 p q < bd then scan p qs (i + 1) i (dist2 p q) else scan p qs (i + 1) best bd)"

definition scan_query :: "point list \<Rightarrow> point \<Rightarrow> int" where
  "scan_query pts p = (case pts of [] \<Rightarrow> 0 | q # qs \<Rightarrow> scan p qs 1 0 (dist2 p q))"

text \<open>
  A small node: a route of three waypoints on the x axis, one stop line at the last of
  them, the vehicle at the first, one light, and a classifier that sees red.
\<close>

definition demo_route :: "point list" where
  "demo_route = [(0, 0), (1, 0), (2, 0)]"

definition demo_node :: "(nat, nat, point list) TLDetector" where
  "demo_node =
     traffic_cb [7] (pose_cb (0, 0) (fst (waypoints_cb list_tree demo_route (TLDetector_init [(2, 0)]))))"

definition sees_red :: "nat option \<Rightarrow> TrafficLight" where
  "sees_red img = RED"

definition demo_no_pose :: "(nat, nat, point list) TLDetector" where
  "demo_no_pose = fst (waypoints_cb list_tree demo_route (TLDetector_init [(2, 0)]))"

definition demo_start :: "(nat, nat) event list" where
  "demo_start = [LaneMsg demo_route, PoseMsg (0, 0), LightsMsg [7]]"

definition demo_three_reds :: "(nat, nat) event list" where
  "demo_three_reds = demo_start @ [ImageMsg 0 1 1, ImageMsg 0 2 2, ImageMsg 0 3 3]"

text \<open>What every callback keeps, in every run.\<close>

definition node_inv :: "point list \<Rightarrow> ('img, 'light, 'tree) TLDetector \<Rightarrow> bool" where
  "node_inv cfg s \<longleftrightarrow>
     config s = cfg
     \<and> (waypoint_tree s \<noteq> None \<longrightarrow> waypoints s \<noteq> None)
     \<and> prev_light_loc s = None
     \<and> state s \<noteq> PyFalse \<and> last_state s \<noteq> PyFalse
     \<and> (last_wp s \<noteq> - 1 \<longrightarrow> last_state s = Light RED)"

section \<open>Properties\<close>

subsection \<open>Shared facts\<close>

lemmas node_defs =
  image_cb_def process_traffic_lights_def get_closest_waypoint_def get_light_state_def
  publish_state_def CAMERA_IMG_PROCESS_RATE_def WAYPOINT_DIFFERENCE_def
  STATE_COUNT_THRESHOLD_def published_by_def Let_def

lemmas demo_defs = demo_route_def scan_query_def dist2_def sees_red_def

lemma demo_node_eq:
  "demo_node =
     \<lparr> pose = Some (0, 0), waypoints = Some demo_route, camera_image = None, lights = [7],
       waypoints_2d = Some demo_route, waypoint_tree = Some demo_route, config = [(2, 0)],
       upcoming_red_light_pub = [], light_classifier = 0,
       last_state = Light UNKNOWN, last_light_state = None, last_wp = - 1,
       state_count = 0, has_image = False, state = Light UNKNOWN,
       last_img_processed = 0, prev_light_loc = None \<rparr>"
  by (simp add: demo_node_def traffic_cb_def pose_cb_def waypoints_cb_def TLDetector_init_def
      list_tree_def demo_route_def Let_def)

lemma demo_first_image:
  "image_cb scan_query sees_red 0 1 1 demo_node =
     (demo_node\<lparr>has_image := True, camera_image := Some 0, last_img_processed := 1,
        light_classifier := 1, last_light_state := Some (Light RED),
        state_count := 1, state := Light RED\<rparr>, None)"
  by (simp add: demo_node_eq node_defs demo_defs)

text \<open>The three branches of lines 103 to 113, each with the increment of line 113.\<close>

lemma publish_state_change:
  "state s \<noteq> st \<Longrightarrow> publish_state w st s = s\<lparr>state_count := 1, state := st\<rparr>"
  by (simp add: publish_state_def)

lemma publish_state_commit:
  "state s = st \<Longrightarrow> 3 \<le> state_count s \<Longrightarrow>
   publish_state w st s =
     s\<lparr>last_state := st, last_wp := (if st = Light RED then w else - 1),
       upcoming_red_light_pub :=
         upcoming_red_light_pub s @ [if st = Light RED then w else - 1],
       state_count := state_count s + 1\<rparr>"
  by (simp add: publish_state_def STATE_COUNT_THRESHOLD_def Let_def)

lemma publish_state_hold:
  "state s = st \<Longrightarrow> state_count s < 3 \<Longrightarrow>
   publish_state w st s =
     s\<lparr>upcoming_red_light_pub := upcoming_red_light_pub s @ [last_wp s],
       state_count := state_count s + 1\<rparr>"
  by (simp add: publish_state_def STATE_COUNT_THRESHOLD_def Let_def)

lemma demo_no_pose_eq:
  "demo_no_pose =
     \<lparr> pose = None, waypoints = Some demo_route, camera_image = None, lights = [],
       waypoints_2d = Some demo_route, waypoint_tree = Some demo_route, config = [(2, 0)],
       upcoming_red_light_pub = [], light_classifier = 0,
       last_state = Light UNKNOWN, last_light_state = None, last_wp = - 1,
       state_count = 0, has_image = False, state = Light UNKNOWN,
       last_img_processed = 0, prev_light_loc = None \<rparr>"
  by (simp add: demo_no_pose_def waypoints_cb_def TLDetector_init_def
      list_tree_def demo_route_def Let_def)

text \<open>What \<open>get_light_state\<close> and \<open>process_traffic_lights\<close> leave alone.\<close>

lemma get_light_state_frame:
  assumes "get_light_state c s l = (s', st)"
  shows "state s' = state s \<and> state_count s' = state_count s \<and> last_state s' = last_state s
    \<and> last_wp s' = last_wp s \<and> upcoming_red_light_pub s' = upcoming_red_light_pub s
    \<and> last_img_processed s' = last_img_processed s \<and> has_image s' = has_image s
    \<and> camera_image s' = camera_image s \<and> waypoint_tree s' = waypoint_tree s
    \<and> waypoints s' = waypoints s \<and> waypoints_2d s' = waypoints_2d s \<and> pose s' = pose s
    \<and> lights s' = lights s \<and> config s' = config s"
  using assms by (auto simp: get_light_state_def Let_def split: if_splits)

lemma get_light_state_has_image:
  assumes "has_image s"
  shows "get_light_state c s l =
     (s\<lparr>light_classifier := Suc (light_classifier s),
        last_light_state := Some (Light (c (camera_image s)))\<rparr>, Light (c (camera_image s)))"
  using assms by (simp add: get_light_state_def Let_def)

lemma ptl_cases:
  assumes "process_traffic_lights q c s = Inr (s', w, st)"
  shows "(s' = s \<and> w = - 1 \<and> st = Light UNKNOWN) \<or> (\<exists>l. get_light_state c s l = (s', st))"
  using assms
  by (auto simp: process_traffic_lights_def Let_def
      split: option.splits sum.splits prod.splits if_splits)

lemma ptl_frame:
  assumes "process_traffic_lights q c s = Inr (s', w, st)"
  shows "state s' = state s \<and> state_count s' = state_count s \<and> last_state s' = last_state s
    \<and> last_wp s' = last_wp s \<and> upcoming_red_light_pub s' = upcoming_red_light_pub s
    \<and> last_img_processed s' = last_img_processed s \<and> has_image s' = has_image s
    \<and> camera_image s' = camera_image s \<and> waypoint_tree s' = waypoint_tree s
    \<and> waypoints s' = waypoints s \<and> waypoints_2d s' = waypoints_2d s \<and> pose s' = pose s
    \<and> lights s' = lights s \<and> config s' = config s"
proof -
  consider "s' = s" | l where "get_light_state c s l = (s', st)"
    using ptl_cases [OF assms] by blast
  then show ?thesis
  proof cases
    case 1
    then show ?thesis by simp
  next
    case 2
    then show ?thesis by (rule get_light_state_frame)
  qed
qed

lemma ptl_has_image:
  assumes "has_image s" and "process_traffic_lights q c s = Inr (s', w, st)"
  shows "prev_light_loc s' = prev_light_loc s
    \<and> (st = Light UNKNOWN \<or> st = Light (c (camera_image s)))"
  using ptl_cases [OF assms(2)] get_light_state_has_image [OF assms(1), of c] by auto

lemma ptl_no_pose:
  "pose s = None \<Longrightarrow> process_traffic_lights q c s = Inr (s, - 1, Light UNKNOWN)"
  by (simp add: process_traffic_lights_def)

lemma publish_state_moves:
  "state (publish_state w st s) \<noteq> state s \<or> state_count (publish_state w st s) \<noteq> state_count s"
  by (simp add: publish_state_def Let_def)

lemma publish_state_last_img:
  "last_img_processed (publish_state w st s) = last_img_processed s
   \<and> has_image (publish_state w st s) = has_image s
   \<and> camera_image (publish_state w st s) = camera_image s"
  by (simp add: publish_state_def Let_def)

lemma image_cb_accepted:
  assumes "waypoint_tree s \<noteq> None" and "\<not> t1 - last_img_processed s < CAMERA_IMG_PROCESS_RATE"
  shows "image_cb q c msg t1 t2 s =
     (case process_traffic_lights q c
             (s\<lparr>has_image := True, camera_image := Some msg, last_img_processed := t2\<rparr>) of
        Inl e \<Rightarrow> (s\<lparr>has_image := True, camera_image := Some msg, last_img_processed := t2\<rparr>, Some e)
      | Inr (s2, light_wp, st) \<Rightarrow> (publish_state light_wp st s2, None))"
  using assms by (cases "waypoint_tree s") (simp_all add: image_cb_def Let_def)

lemma image_cb_rejected:
  assumes "waypoint_tree s = None \<or> t1 - last_img_processed s < CAMERA_IMG_PROCESS_RATE"
  shows "image_cb q c msg t1 t2 s = (s, None)"
  using assms by (auto simp: image_cb_def Let_def)

lemma image_cb_accepted_differs:
  assumes "waypoint_tree s \<noteq> None" and "\<not> t1 - last_img_processed s < CAMERA_IMG_PROCESS_RATE"
  shows "image_cb q c msg t1 t2 s \<noteq> (s, None)"
proof (cases "process_traffic_lights q c
             (s\<lparr>has_image := True, camera_image := Some msg, last_img_processed := t2\<rparr>)")
  case (Inl e)
  then show ?thesis by (simp add: image_cb_accepted [OF assms])
next
  case (Inr r)
  obtain s2 w st where r: "r = (s2, w, st)" by (cases r) auto
  from ptl_frame [OF Inr [unfolded r]]
  have "state s2 = state s" "state_count s2 = state_count s" by simp_all
  with publish_state_moves [of w st s2]
  have "publish_state w st s2 \<noteq> s" by auto
  then show ?thesis by (simp add: image_cb_accepted [OF assms] Inr r)
qed

lemma image_cb_accepted_fields:
  assumes "waypoint_tree s \<noteq> None" and "\<not> t1 - last_img_processed s < CAMERA_IMG_PROCESS_RATE"
  shows "last_img_processed (fst (image_cb q c msg t1 t2 s)) = t2
    \<and> has_image (fst (image_cb q c msg t1 t2 s))
    \<and> camera_image (fst (image_cb q c msg t1 t2 s)) = Some msg"
proof (cases "process_traffic_lights q c
             (s\<lparr>has_image := True, camera_image := Some msg, last_img_processed := t2\<rparr>)")
  case (Inl e)
  then show ?thesis by (simp add: image_cb_accepted [OF assms])
next
  case (Inr r)
  obtain s2 w st where r: "r = (s2, w, st)" by (cases r) auto
  from ptl_frame [OF Inr [unfolded r]] publish_state_last_img [of w st s2]
  show ?thesis by (simp add: image_cb_accepted [OF assms] Inr r)
qed

text \<open>Runs, and the invariant of the node.\<close>

lemma run_Nil: "run K q c cfg [] = TLDetector_init cfg"
  by (simp add: run_def)

lemma run_snoc: "run K q c cfg (evs @ [e]) = deliver K q c (run K q c cfg evs) e"
  by (simp add: run_def)

lemma node_inv_init: "node_inv cfg (TLDetector_init cfg)"
  by (simp add: node_inv_def TLDetector_init_def)

lemma node_inv_pose_cb: "node_inv cfg s \<Longrightarrow> node_inv cfg (pose_cb p s)"
  by (simp add: node_inv_def pose_cb_def)

lemma node_inv_traffic_cb: "node_inv cfg s \<Longrightarrow> node_inv cfg (traffic_cb ls s)"
  by (simp add: node_inv_def traffic_cb_def)

lemma node_inv_waypoints_cb: "node_inv cfg s \<Longrightarrow> node_inv cfg (fst (waypoints_cb K wps s))"
  by (simp add: node_inv_def waypoints_cb_def Let_def split: sum.splits)

lemma node_inv_publish_state:
  assumes "node_inv cfg s" and "st \<noteq> PyFalse"
  shows "node_inv cfg (publish_state w st s)"
  using assms by (simp add: node_inv_def publish_state_def Let_def)

lemma node_inv_image_cb:
  assumes "node_inv cfg s"
  shows "node_inv cfg (fst (image_cb q c msg t1 t2 s))"
proof (cases "waypoint_tree s = None \<or> t1 - last_img_processed s < CAMERA_IMG_PROCESS_RATE")
  case True
  then show ?thesis using assms by (simp add: image_cb_rejected)
next
  case False
  let ?s1 = "s\<lparr>has_image := True, camera_image := Some msg, last_img_processed := t2\<rparr>"
  have acc: "waypoint_tree s \<noteq> None" "\<not> t1 - last_img_processed s < CAMERA_IMG_PROCESS_RATE"
    using False by auto
  have inv1: "node_inv cfg ?s1" using assms by (simp add: node_inv_def)
  show ?thesis
  proof (cases "process_traffic_lights q c ?s1")
    case (Inl e)
    then show ?thesis using inv1 by (simp add: image_cb_accepted [OF acc])
  next
    case (Inr r)
    obtain s2 w st where r: "r = (s2, w, st)" by (cases r) auto
    have eq: "process_traffic_lights q c ?s1 = Inr (s2, w, st)" using Inr r by simp
    have "has_image ?s1" by simp
    from ptl_has_image [OF this eq] have st: "st \<noteq> PyFalse" and pl: "prev_light_loc s2 = None"
      using inv1 by (auto simp: node_inv_def)
    from ptl_frame [OF eq] inv1 pl have "node_inv cfg s2"
      by (simp add: node_inv_def)
    then have "node_inv cfg (publish_state w st s2)" using st by (rule node_inv_publish_state)
    then show ?thesis by (simp add: image_cb_accepted [OF acc] eq)
  qed
qed

lemma node_inv_deliver: "node_inv cfg s \<Longrightarrow> node_inv cfg (deliver K q c s e)"
  by (cases e)
    (simp_all add: node_inv_pose_cb node_inv_traffic_cb node_inv_waypoints_cb node_inv_image_cb)

lemma node_inv_run: "node_inv cfg (run K q c cfg evs)"
  by (induction evs rule: rev_induct) (simp_all add: run_Nil run_snoc node_inv_init node_inv_deliver)

text \<open>What a call of lines 103 to 113 publishes.\<close>

lemma published_by_publish_state:
  "published_by s (publish_state w st s) =
     (if state s \<noteq> st then []
      else if state_count s \<ge> STATE_COUNT_THRESHOLD then [if st = Light RED then w else - 1]
      else [last_wp s])"
  by (simp add: published_by_def publish_state_def Let_def)

lemma published_by_same_pub:
  "upcoming_red_light_pub s = upcoming_red_light_pub s0 \<Longrightarrow> published_by s s' = published_by s0 s'"
  by (simp add: published_by_def)

lemma published_by_self: "published_by s s = []"
  by (simp add: published_by_def)

lemma publish_state_red:
  assumes "last_wp s \<noteq> - 1 \<longrightarrow> last_state s = Light RED"
    and "v \<in> set (published_by s (publish_state w st s))" and "v \<noteq> - 1"
  shows "last_state (publish_state w st s) = Light RED"
  using assms
  by (auto simp: published_by_def publish_state_def Let_def split: if_splits)

text \<open>The small node after three, and four, red images.\<close>

lemma run_demo_start: "run list_tree scan_query sees_red [(2, 0)] demo_start = demo_node"
  by (simp add: run_def demo_start_def demo_node_def)

lemma run_demo_three_reds:
  "run list_tree scan_query sees_red [(2, 0)] demo_three_reds =
     demo_node\<lparr>has_image := True, camera_image := Some 0, last_img_processed := 3,
        light_classifier := 3, last_light_state := Some (Light RED),
        state_count := 3, state := Light RED, upcoming_red_light_pub := [- 1, - 1]\<rparr>"
proof -
  have "run list_tree scan_query sees_red [(2, 0)] demo_three_reds =
     fst (image_cb scan_query sees_red 0 3 3 (fst (image_cb scan_query sees_red 0 2 2
       (fst (image_cb scan_query sees_red 0 1 1 demo_node)))))"
    using run_demo_start by (simp add: run_def demo_three_reds_def)
  also have "\<dots> = demo_node\<lparr>has_image := True, camera_image := Some 0, last_img_processed := 3,
        light_classifier := 3, last_light_state := Some (Light RED),
        state_count := 3, state := Light RED, upcoming_red_light_pub := [- 1, - 1]\<rparr>"
    by (simp add: demo_first_image) (simp add: demo_node_eq node_defs demo_defs)
  finally show ?thesis .
qed

lemma demo_fourth_image:
  "image_cb scan_query sees_red 0 4 4 (run list_tree scan_query sees_red [(2, 0)] demo_three_reds) =
     (demo_node\<lparr>has_image := True, camera_image := Some 0, last_img_processed := 4,
        light_classifier := 4, last_light_state := Some (Light RED),
        state_count := 4, state := Light RED, upcoming_red_light_pub := [- 1, - 1, 2],
        last_state := Light RED, last_wp := 2\<rparr>, None)"
  by (simp add: run_demo_three_reds) (simp add: demo_node_eq node_defs demo_defs)

lemma publish_state_state: "state (publish_state w st s) = st"
  by (simp add: publish_state_def Let_def)

lemma publish_state_classifier:
  "light_classifier (publish_state w st s) = light_classifier s
   \<and> prev_light_loc (publish_state w st s) = prev_light_loc s"
  by (simp add: publish_state_def Let_def)

text \<open>The scan over the lights: when it raises, and what it keeps.\<close>

lemma lights_loop_index:
  assumes "\<And>x y. \<exists>v. gcw x y = Inr v" and "i \<le> length stops"
  shows "(length stops < i + length ls \<longrightarrow> lights_loop gcw stops car i ls acc = Inl IndexError)
    \<and> (i + length ls \<le> length stops \<longrightarrow> (\<exists>r. lights_loop gcw stops car i ls acc = Inr r))"
  using assms(2)
proof (induction ls arbitrary: i acc)
  case Nil
  then show ?case by simp
next
  case (Cons l ls)
  obtain diff closest where acc: "acc = (diff, closest)" by (cases acc)
  show ?case
  proof (cases "length stops \<le> i")
    case True
    then show ?thesis using Cons.prems by (simp add: acc)
  next
    case False
    then have lt: "Suc i \<le> length stops" by simp
    obtain v where v: "gcw (fst (stops ! i)) (snd (stops ! i)) = Inr v"
      using assms(1) by blast
    show ?thesis
      using False Cons.IH [OF lt, of "(v - car, Some (l, v))"] Cons.IH [OF lt, of "(diff, closest)"]
      by (simp add: acc v Let_def)
  qed
qed

lemma ptl_index_error:
  assumes "pose s = Some p" and "waypoint_tree s = Some t" and "waypoints s = Some wps"
  shows "(length (config s) < length (lights s) \<longrightarrow> process_traffic_lights q c s = Inl IndexError)
    \<and> (length (lights s) \<le> length (config s) \<longrightarrow> (\<exists>r. process_traffic_lights q c s = Inr r))"
proof -
  have g: "\<And>x y. \<exists>v. get_closest_waypoint q s x y = Inr v"
    using assms(2) by (simp add: get_closest_waypoint_def)
  from lights_loop_index [of "get_closest_waypoint q s" 0 "config s" "lights s"
      "q t (fst p, snd p)" "(int (length wps), None)", OF g]
  show ?thesis
    using assms
    by (auto simp: process_traffic_lights_def get_closest_waypoint_def Let_def
        split: option.splits sum.splits prod.splits)
qed




lemma run_demo_start_no_stop_lines:
  "run list_tree scan_query sees_red [] demo_start = demo_node\<lparr>config := []\<rparr>"
  by (simp add: run_def demo_start_def demo_node_eq traffic_cb_def pose_cb_def waypoints_cb_def
      TLDetector_init_def list_tree_def demo_route_def Let_def)



subsection \<open>C1: three red observations\<close>

text \<open>
  C1, as stated, fails. From the state the constructor leaves, three calls of lines 103 to
  113 with the state red and the candidate waypoint 120 do not commit red: after the
  third, \<open>last_state\<close> is still unknown, and the third call has published \<open>-1\<close>,
  not 120.
\<close>

theorem third_red_does_not_commit:
  "last_state (publish_state 120 (Light RED) (publish_state 120 (Light RED)
      (publish_state 120 (Light RED) (TLDetector_init [] :: (nat, nat, nat) TLDetector))))
     = Light UNKNOWN
   \<and> published_by
        (publish_state 120 (Light RED)
          (publish_state 120 (Light RED) (TLDetector_init [] :: (nat, nat, nat) TLDetector)))
        (publish_state 120 (Light RED) (publish_state 120 (Light RED)
          (publish_state 120 (Light RED) (TLDetector_init [] :: (nat, nat, nat) TLDetector))))
     = [- 1]"
  by (simp add: TLDetector_init_def publish_state_def STATE_COUNT_THRESHOLD_def published_by_def)

text \<open>
  C1, amended. The counter is compared with the threshold before the current observation
  is counted. Starting from any state whose pending state is not red, three red
  observations leave the committed state as it was, and the third republishes the
  waypoint published last; the fourth red observation commits red and publishes the
  candidate waypoint it was given.
\<close>

theorem red_committed_on_fourth_observation:
  assumes "state s \<noteq> Light RED"
  shows "last_state (publish_state wc (Light RED) (publish_state wb (Light RED)
            (publish_state wa (Light RED) s))) = last_state s
    \<and> published_by
          (publish_state wb (Light RED) (publish_state wa (Light RED) s))
          (publish_state wc (Light RED) (publish_state wb (Light RED)
            (publish_state wa (Light RED) s))) = [last_wp s]
    \<and> last_state (publish_state wd (Light RED) (publish_state wc (Light RED)
            (publish_state wb (Light RED) (publish_state wa (Light RED) s)))) = Light RED
    \<and> published_by
          (publish_state wc (Light RED) (publish_state wb (Light RED)
            (publish_state wa (Light RED) s)))
          (publish_state wd (Light RED) (publish_state wc (Light RED)
            (publish_state wb (Light RED) (publish_state wa (Light RED) s)))) = [wd]"
  using assms
  by (simp add: publish_state_change publish_state_hold publish_state_commit published_by_def)

theorem red_committed_on_fourth_observation_witness:
  "state (TLDetector_init [] :: (nat, nat, nat) TLDetector) \<noteq> Light RED
   \<and> last_state (publish_state 120 (Light RED) (publish_state 120 (Light RED)
         (publish_state 120 (Light RED) (publish_state 120 (Light RED)
           (TLDetector_init [] :: (nat, nat, nat) TLDetector))))) = Light RED
   \<and> published_by
         (publish_state 120 (Light RED) (publish_state 120 (Light RED)
           (publish_state 120 (Light RED) (TLDetector_init [] :: (nat, nat, nat) TLDetector))))
         (publish_state 120 (Light RED) (publish_state 120 (Light RED)
           (publish_state 120 (Light RED) (publish_state 120 (Light RED)
             (TLDetector_init [] :: (nat, nat, nat) TLDetector))))) = [120]"
proof -
  have h: "state (TLDetector_init [] :: (nat, nat, nat) TLDetector) \<noteq> Light RED"
    by (simp add: TLDetector_init_def)
  show ?thesis
    using h red_committed_on_fourth_observation [OF h, of 120 120 120 120] by simp
qed

subsection \<open>C2: one publication per tick\<close>

text \<open>
  C2 at the input where the code leaves it. The small node has its index built, a pose,
  one light and a stop line two waypoints ahead; its pending state is unknown. An image
  arrives at clock reading 1 and is classified red. The tick passes the gate and reaches
  lines 103 to 113 (the pending state becomes red, no exception), and it publishes
  nothing: the branch for a changed state has no call of the publisher.
\<close>

theorem state_change_tick_publishes_nothing:
  "state demo_node = Light UNKNOWN
   \<and> snd (image_cb scan_query sees_red 0 1 1 demo_node) = None
   \<and> state (fst (image_cb scan_query sees_red 0 1 1 demo_node)) = Light RED
   \<and> published_by demo_node (fst (image_cb scan_query sees_red 0 1 1 demo_node)) = []"
  by (simp add: demo_first_image) (simp add: demo_node_eq published_by_def)

subsection \<open>C3: the frame gate\<close>

text \<open>
  C3, as stated, fails in its last part. The small node has its index built and has seen
  no image yet, so \<open>last_img_processed\<close> is the initial 0. Its very first image, at
  clock reading 1/4, is dropped: the call returns the object unchanged.
\<close>

theorem first_frame_rejected_below_rate:
  "last_img_processed demo_node = 0 \<and> has_image demo_node = False
   \<and> waypoint_tree demo_node \<noteq> None
   \<and> image_cb scan_query sees_red 0 (1 / 4) (1 / 4) demo_node = (demo_node, None)"
  by (simp add: demo_node_eq image_cb_def CAMERA_IMG_PROCESS_RATE_def)

text \<open>
  C3, amended. With the index built, \<open>image_cb\<close> drops the frame (returns with the
  object unchanged and no exception) if and only if the clock reading of line 86 minus
  \<open>last_img_processed\<close> is below the rate; an accepted frame is stored, \<open>has_image\<close> is
  set, and \<open>last_img_processed\<close> becomes the second clock reading, taken at line 94.
  \<open>last_img_processed\<close> starts at 0, so the first frame is accepted if and only if its
  clock reading is at least 1/2.
\<close>

theorem frame_gate:
  assumes "waypoint_tree s \<noteq> None"
  shows "(image_cb q c msg t1 t2 s = (s, None)
            \<longleftrightarrow> \<not> t1 - last_img_processed s \<ge> CAMERA_IMG_PROCESS_RATE)
    \<and> (t1 - last_img_processed s \<ge> CAMERA_IMG_PROCESS_RATE \<longrightarrow>
          last_img_processed (fst (image_cb q c msg t1 t2 s)) = t2
          \<and> has_image (fst (image_cb q c msg t1 t2 s))
          \<and> camera_image (fst (image_cb q c msg t1 t2 s)) = Some msg)
    \<and> (last_img_processed s = 0 \<longrightarrow>
          (image_cb q c msg t1 t2 s = (s, None) \<longleftrightarrow> t1 < 1 / 2))"
proof -
  have a: "image_cb q c msg t1 t2 s = (s, None)
            \<longleftrightarrow> \<not> t1 - last_img_processed s \<ge> CAMERA_IMG_PROCESS_RATE"
    using image_cb_rejected [of s t1 q c msg t2] image_cb_accepted_differs [OF assms, of t1 q c msg t2]
    by (auto simp: not_le)
  have b: "t1 - last_img_processed s \<ge> CAMERA_IMG_PROCESS_RATE \<longrightarrow>
          last_img_processed (fst (image_cb q c msg t1 t2 s)) = t2
          \<and> has_image (fst (image_cb q c msg t1 t2 s))
          \<and> camera_image (fst (image_cb q c msg t1 t2 s)) = Some msg"
    using image_cb_accepted_fields [OF assms, of t1 q c msg t2] by (simp add: not_less)
  have c: "last_img_processed s = 0 \<longrightarrow>
          (image_cb q c msg t1 t2 s = (s, None) \<longleftrightarrow> t1 < 1 / 2)"
    using a by (auto simp: CAMERA_IMG_PROCESS_RATE_def)
  from a b c show ?thesis by blast
qed

theorem frame_gate_witness:
  "waypoint_tree demo_node \<noteq> None
   \<and> 1 - last_img_processed demo_node \<ge> CAMERA_IMG_PROCESS_RATE
   \<and> last_img_processed demo_node = 0
   \<and> image_cb scan_query sees_red 0 1 2 demo_node \<noteq> (demo_node, None)
   \<and> last_img_processed (fst (image_cb scan_query sees_red 0 1 2 demo_node)) = 2"
proof -
  have h: "waypoint_tree demo_node \<noteq> None"
    by (simp add: demo_node_eq)
  have g: "1 - last_img_processed demo_node \<ge> CAMERA_IMG_PROCESS_RATE"
    "last_img_processed demo_node = 0"
    by (simp_all add: demo_node_eq CAMERA_IMG_PROCESS_RATE_def)
  show ?thesis
    using h g frame_gate [OF h, of scan_query sees_red 0 1 2] by simp
qed

subsection \<open>C4: an image while the pose is unknown\<close>

text \<open>
  C4, as stated, fails. The node below has its index built and no pose. An image at clock
  reading 1 passes the gate; the call raises nothing and publishes \<open>-1\<close>.
\<close>

theorem unknown_pose_tick_publishes:
  "pose demo_no_pose = None \<and> waypoint_tree demo_no_pose \<noteq> None
   \<and> snd (image_cb scan_query sees_red 0 1 1 demo_no_pose) = None
   \<and> published_by demo_no_pose (fst (image_cb scan_query sees_red 0 1 1 demo_no_pose)) = [- 1]"
  by (simp add: demo_no_pose_eq node_defs)

text \<open>
  C4, amended. \<open>image_cb\<close> does not look at the pose; \<open>process_traffic_lights\<close> does,
  and answers \<open>(-1, UNKNOWN)\<close> without a classification. So when the pose is unknown,
  the index is built and the gate accepts, the frame is stored, no classification is
  run, and lines 103 to 113 run with \<open>(-1, UNKNOWN)\<close>; when the pending state is
  already unknown, one value is published: \<open>-1\<close> once the counter has reached the
  threshold, the waypoint published last before that.
\<close>

theorem unknown_pose_tick_reaches_publisher:
  assumes "pose s = None" and "waypoint_tree s \<noteq> None"
    and "\<not> t1 - last_img_processed s < CAMERA_IMG_PROCESS_RATE"
  shows "image_cb q c msg t1 t2 s =
      (publish_state (- 1) (Light UNKNOWN)
         (s\<lparr>has_image := True, camera_image := Some msg, last_img_processed := t2\<rparr>), None)
    \<and> light_classifier (fst (image_cb q c msg t1 t2 s)) = light_classifier s
    \<and> (state s = Light UNKNOWN \<longrightarrow>
         published_by s (fst (image_cb q c msg t1 t2 s))
           = [if state_count s \<ge> STATE_COUNT_THRESHOLD then - 1 else last_wp s])"
proof -
  let ?s1 = "s\<lparr>has_image := True, camera_image := Some msg, last_img_processed := t2\<rparr>"
  have "process_traffic_lights q c ?s1 = Inr (?s1, - 1, Light UNKNOWN)"
    using assms(1) by (simp add: ptl_no_pose)
  then have eq: "image_cb q c msg t1 t2 s = (publish_state (- 1) (Light UNKNOWN) ?s1, None)"
    by (simp add: image_cb_accepted [OF assms(2,3)])
  show ?thesis
    unfolding eq by (simp add: publish_state_def published_by_def Let_def)
qed

theorem unknown_pose_tick_reaches_publisher_witness:
  "pose demo_no_pose = None \<and> waypoint_tree demo_no_pose \<noteq> None
   \<and> \<not> 1 - last_img_processed demo_no_pose < CAMERA_IMG_PROCESS_RATE
   \<and> state demo_no_pose = Light UNKNOWN
   \<and> light_classifier (fst (image_cb scan_query sees_red 0 1 1 demo_no_pose)) = 0
   \<and> published_by demo_no_pose (fst (image_cb scan_query sees_red 0 1 1 demo_no_pose)) = [- 1]"
proof -
  have h: "pose demo_no_pose = None" "waypoint_tree demo_no_pose \<noteq> None"
    "\<not> 1 - last_img_processed demo_no_pose < CAMERA_IMG_PROCESS_RATE"
    by (simp_all add: demo_no_pose_eq CAMERA_IMG_PROCESS_RATE_def)
  have g: "state demo_no_pose = Light UNKNOWN" "light_classifier demo_no_pose = 0"
    "last_wp demo_no_pose = - 1" "state_count demo_no_pose = 0"
    by (simp_all add: demo_no_pose_eq)
  from unknown_pose_tick_reaches_publisher [OF h, of scan_query sees_red 0 1, THEN conjunct2]
  have "light_classifier (fst (image_cb scan_query sees_red 0 1 1 demo_no_pose)) = 0"
    and "published_by demo_no_pose (fst (image_cb scan_query sees_red 0 1 1 demo_no_pose)) = [- 1]"
    using g by (simp_all add: STATE_COUNT_THRESHOLD_def)
  with h g show ?thesis by simp
qed

subsection \<open>C5: the nearest stop line ahead, within the horizon\<close>




subsection \<open>C6: a waypoint is published only when red is committed\<close>

text \<open>
  C6. In every state the node can reach from its constructor by pose, route, light and
  image messages, every value an image callback publishes is \<open>-1\<close> unless the state
  committed last (\<open>last_state\<close>, at the moment of the publication) is red.
\<close>

theorem published_waypoint_only_when_red:
  assumes "s = run K q c cfg evs"
    and "v \<in> set (published_by s (fst (image_cb q c msg t1 t2 s)))"
  shows "(v \<noteq> - 1 \<longrightarrow> last_state (fst (image_cb q c msg t1 t2 s)) = Light RED)
       \<and> (last_state (fst (image_cb q c msg t1 t2 s)) \<noteq> Light RED \<longrightarrow> v = - 1)"
proof -
  have inv: "node_inv cfg s" unfolding assms(1) by (rule node_inv_run)
  have "v \<noteq> - 1 \<Longrightarrow> last_state (fst (image_cb q c msg t1 t2 s)) = Light RED"
  proof (cases "waypoint_tree s = None \<or> t1 - last_img_processed s < CAMERA_IMG_PROCESS_RATE")
    case True
    then show ?thesis using assms(2) by (simp add: image_cb_rejected published_by_self)
  next
    case False
    assume v: "v \<noteq> - 1"
    let ?s1 = "s\<lparr>has_image := True, camera_image := Some msg, last_img_processed := t2\<rparr>"
    have acc: "waypoint_tree s \<noteq> None" "\<not> t1 - last_img_processed s < CAMERA_IMG_PROCESS_RATE"
      using False by auto
    show ?thesis
    proof (cases "process_traffic_lights q c ?s1")
      case (Inl e)
      then show ?thesis using assms(2)
        by (simp add: image_cb_accepted [OF acc] published_by_def)
    next
      case (Inr r)
      obtain s2 w st where r: "r = (s2, w, st)" by (cases r) auto
      have eq: "process_traffic_lights q c ?s1 = Inr (s2, w, st)" using Inr r by simp
      from ptl_frame [OF eq] have fr: "upcoming_red_light_pub s2 = upcoming_red_light_pub s"
        "last_wp s2 = last_wp s" "last_state s2 = last_state s" by simp_all
      have i2: "last_wp s2 \<noteq> - 1 \<longrightarrow> last_state s2 = Light RED"
        using inv fr by (simp add: node_inv_def)
      have "v \<in> set (published_by s2 (publish_state w st s2))"
        using assms(2) published_by_same_pub [OF fr(1)]
        by (simp add: image_cb_accepted [OF acc] eq)
      from publish_state_red [OF i2 this v] show ?thesis
        by (simp add: image_cb_accepted [OF acc] eq)
    qed
  qed
  then show ?thesis by blast
qed

theorem published_waypoint_only_when_red_witness:
  "(2::int) \<in> set (published_by (run list_tree scan_query sees_red [(2, 0)] demo_three_reds)
       (fst (image_cb scan_query sees_red 0 4 4
              (run list_tree scan_query sees_red [(2, 0)] demo_three_reds))))
   \<and> (2::int) \<noteq> - 1
   \<and> last_state (fst (image_cb scan_query sees_red 0 4 4
         (run list_tree scan_query sees_red [(2, 0)] demo_three_reds))) = Light RED"
proof -
  have m: "(2::int) \<in> set (published_by (run list_tree scan_query sees_red [(2, 0)] demo_three_reds)
       (fst (image_cb scan_query sees_red 0 4 4
              (run list_tree scan_query sees_red [(2, 0)] demo_three_reds))))"
    by (simp add: demo_fourth_image) (simp add: run_demo_three_reds published_by_def demo_node_eq)
  from published_waypoint_only_when_red [OF refl m] show ?thesis using m by simp
qed

subsection \<open>C7: a stop-line list shorter than the light list\<close>

text \<open>
  C7, as stated, fails. The constructor stores the configuration without looking at it.
  With the empty stop-line list the node starts, receives a route, a pose and one light,
  and the first image then raises \<open>IndexError\<close> inside the callback, at run time.
\<close>

theorem short_stop_line_list_raises_at_runtime:
  "config (run list_tree scan_query sees_red [] demo_start) = []
   \<and> lights (run list_tree scan_query sees_red [] demo_start) = [7]
   \<and> snd (image_cb scan_query sees_red 0 1 1 (run list_tree scan_query sees_red [] demo_start))
       = Some IndexError"
  by (simp add: run_demo_start_no_stop_lines) (simp add: demo_node_eq node_defs demo_defs)

text \<open>
  C7, amended. No configuration is rejected at startup: in every run the node holds the
  stop-line list it was constructed with, whatever its length. An image callback raises
  \<open>IndexError\<close> exactly when the index is built, the gate accepts, the pose is known and
  the light list is longer than the stop-line list; it raises nothing else.
\<close>

theorem index_error_is_raised_at_runtime:
  assumes "s = run K q c cfg evs"
  shows "config s = cfg
    \<and> (snd (image_cb q c msg t1 t2 s) = Some IndexError \<longleftrightarrow>
          waypoint_tree s \<noteq> None \<and> \<not> t1 - last_img_processed s < CAMERA_IMG_PROCESS_RATE
          \<and> pose s \<noteq> None \<and> length cfg < length (lights s))
    \<and> (snd (image_cb q c msg t1 t2 s) \<noteq> Some IndexError \<longrightarrow> snd (image_cb q c msg t1 t2 s) = None)"
proof -
  let ?s1 = "s\<lparr>has_image := True, camera_image := Some msg, last_img_processed := t2\<rparr>"
  have inv: "node_inv cfg s" unfolding assms by (rule node_inv_run)
  then have cfg: "config s = cfg" by (simp add: node_inv_def)
  have main: "(snd (image_cb q c msg t1 t2 s) = Some IndexError \<longleftrightarrow>
          waypoint_tree s \<noteq> None \<and> \<not> t1 - last_img_processed s < CAMERA_IMG_PROCESS_RATE
          \<and> pose s \<noteq> None \<and> length cfg < length (lights s))
       \<and> (snd (image_cb q c msg t1 t2 s) \<noteq> Some IndexError \<longrightarrow> snd (image_cb q c msg t1 t2 s) = None)"
  proof (cases "waypoint_tree s = None \<or> t1 - last_img_processed s < CAMERA_IMG_PROCESS_RATE")
    case True
    then show ?thesis by (auto simp: image_cb_rejected)
  next
    case False
    then have acc: "waypoint_tree s \<noteq> None"
      "\<not> t1 - last_img_processed s < CAMERA_IMG_PROCESS_RATE" by auto
    show ?thesis
    proof (cases "pose s")
      case None
      then show ?thesis by (simp add: image_cb_accepted [OF acc] ptl_no_pose)
    next
      case (Some p)
      obtain t where t: "waypoint_tree s = Some t" using acc(1) by auto
      obtain wps where wps: "waypoints s = Some wps" using inv acc(1) by (auto simp: node_inv_def)
      have "pose ?s1 = Some p" "waypoint_tree ?s1 = Some t" "waypoints ?s1 = Some wps"
        using Some t wps by simp_all
      from ptl_index_error [OF this, of q c] cfg
      show ?thesis
        using acc Some
        by (cases "length cfg < length (lights s)")
          (auto simp: image_cb_accepted [OF acc] not_less split: prod.splits)
    qed
  qed
  with cfg show ?thesis by blast
qed

theorem index_error_is_raised_at_runtime_witness:
  "length ([] :: point list)
     < length (lights (run list_tree scan_query sees_red [] demo_start :: (nat, nat, point list) TLDetector))
   \<and> snd (image_cb scan_query sees_red 0 1 1 (run list_tree scan_query sees_red [] demo_start))
       = Some IndexError
   \<and> snd (image_cb scan_query sees_red 0 1 1 (run list_tree scan_query sees_red [(2, 0)] demo_start))
       = None"
proof -
  have a: "waypoint_tree (run list_tree scan_query sees_red [] demo_start) \<noteq> None"
    "\<not> 1 - last_img_processed (run list_tree scan_query sees_red [] demo_start)
         < CAMERA_IMG_PROCESS_RATE"
    "pose (run list_tree scan_query sees_red [] demo_start) \<noteq> None"
    "length ([] :: point list)
       < length (lights (run list_tree scan_query sees_red [] demo_start :: (nat, nat, point list) TLDetector))"
    by (simp_all add: run_demo_start_no_stop_lines)
       (simp_all add: demo_node_eq CAMERA_IMG_PROCESS_RATE_def)
  have b: "\<not> length [(2, 0) :: point]
       < length (lights (run list_tree scan_query sees_red [(2, 0)] demo_start))"
    by (simp add: run_demo_start) (simp add: demo_node_eq)
  from index_error_is_raised_at_runtime
    [where K = list_tree and q = scan_query and c = sees_red and cfg = "[]"
       and evs = demo_start and msg = 0 and ?t1.0 = 1 and ?t2.0 = 1, OF refl] a
  have one: "snd (image_cb scan_query sees_red 0 1 1 (run list_tree scan_query sees_red [] demo_start))
       = Some IndexError" by blast
  from index_error_is_raised_at_runtime
    [where K = list_tree and q = scan_query and c = sees_red and cfg = "[(2, 0)]"
       and evs = demo_start and msg = 0 and ?t1.0 = 1 and ?t2.0 = 1, OF refl] b
  have two: "snd (image_cb scan_query sees_red 0 1 1
       (run list_tree scan_query sees_red [(2, 0)] demo_start)) = None" by blast
  from a(4) one two show ?thesis by blast
qed

subsection \<open>C9: a route update after the index is built\<close>

text \<open>
  C9, as stated, fails. The small node has its index built from a route of three
  waypoints. A second route of one waypoint is not ignored: it replaces the stored
  route, whose length bounds the scan over the lights. Before the update an image finds
  the stop line two waypoints ahead and is classified red; after it the same image finds
  no stop line and the pending state stays unknown.
\<close>

theorem route_update_replaces_stored_route:
  "waypoint_tree demo_node \<noteq> None
   \<and> waypoints (fst (waypoints_cb list_tree [(0, 0)] demo_node)) \<noteq> waypoints demo_node
   \<and> state (fst (image_cb scan_query sees_red 0 1 1 demo_node)) = Light RED
   \<and> state (fst (image_cb scan_query sees_red 0 1 1
         (fst (waypoints_cb list_tree [(0, 0)] demo_node)))) = Light UNKNOWN"
  by (simp add: demo_first_image) (simp add: demo_node_eq waypoints_cb_def node_defs demo_defs)

text \<open>
  C9, amended. Once \<open>waypoints_2d\<close> holds a non-empty list (the index has been built from
  a non-empty route), a route update raises nothing and changes one field only: the
  stored route message \<open>waypoints\<close>, which becomes the new route. The tree and the
  coordinate list it was built from are unchanged, the constructor of the tree is not
  called, and \<open>get_closest_waypoint\<close> answers as before. An update with the route
  already stored leaves the whole object unchanged.
\<close>

theorem route_update_keeps_index:
  assumes "truthy (waypoints_2d s)"
  shows "waypoints_cb K wps s = (s\<lparr>waypoints := Some wps\<rparr>, None)
    \<and> waypoint_tree (fst (waypoints_cb K wps s)) = waypoint_tree s
    \<and> waypoints_2d (fst (waypoints_cb K wps s)) = waypoints_2d s
    \<and> get_closest_waypoint q (fst (waypoints_cb K wps s)) x y = get_closest_waypoint q s x y
    \<and> (waypoints s = Some wps \<longrightarrow> fst (waypoints_cb K wps s) = s)"
proof -
  have eq: "waypoints_cb K wps s = (s\<lparr>waypoints := Some wps\<rparr>, None)"
    using assms by (simp add: waypoints_cb_def Let_def)
  have same: "waypoints s = Some wps \<Longrightarrow> s\<lparr>waypoints := Some wps\<rparr> = s"
    by (cases s) simp
  show ?thesis
    using same by (simp add: eq get_closest_waypoint_def)
qed

theorem route_update_keeps_index_witness:
  "truthy (waypoints_2d demo_node)
   \<and> waypoint_tree (fst (waypoints_cb list_tree [(0, 0)] demo_node)) = Some demo_route
   \<and> waypoints_2d (fst (waypoints_cb list_tree [(0, 0)] demo_node)) = Some demo_route
   \<and> waypoints demo_node = Some demo_route
   \<and> fst (waypoints_cb list_tree demo_route demo_node) = demo_node"
proof -
  have h: "truthy (waypoints_2d demo_node)"
    by (simp add: demo_node_eq demo_route_def)
  have g: "waypoints demo_node = Some demo_route" "waypoint_tree demo_node = Some demo_route"
    "waypoints_2d demo_node = Some demo_route"
    by (simp_all add: demo_node_eq)
  from route_update_keeps_index [OF h, of list_tree "[(0, 0)]" scan_query 0 0]
    route_update_keeps_index [OF h, of list_tree demo_route scan_query 0 0]
  show ?thesis using h g by simp
qed

subsection \<open>C10: get\_light\_state inside an image callback\<close>

text \<open>
  C10. \<open>image_cb\<close> sets \<open>has_image\<close> before it calls \<open>process_traffic_lights\<close>, the only
  caller of \<open>get_light_state\<close>. The branch of \<open>get_light_state\<close> that returns \<open>False\<close>
  is the only place where \<open>prev_light_loc\<close> is assigned. For every state \<open>s\<close> the node
  can reach and every image callback from it: the attribute \<open>prev_light_loc\<close> still does
  not exist afterwards (the branch has never run), the pending state is not \<open>False\<close>,
  \<open>get_light_state\<close> on the object as \<open>image_cb\<close> passes it on returns the classifier's
  result for the new image, and whenever the callback has run the classifier, the state
  it records is that result.
\<close>

theorem get_light_state_from_image_cb:
  assumes "s = run K q c cfg evs"
  shows "prev_light_loc (fst (image_cb q c msg t1 t2 s)) = None
    \<and> state (fst (image_cb q c msg t1 t2 s)) \<noteq> PyFalse
    \<and> snd (get_light_state c
              (s\<lparr>has_image := True, camera_image := Some msg, last_img_processed := t2\<rparr>) light)
         = Light (c (Some msg))
    \<and> (light_classifier (fst (image_cb q c msg t1 t2 s)) \<noteq> light_classifier s \<longrightarrow>
          state (fst (image_cb q c msg t1 t2 s)) = Light (c (Some msg)))"
proof -
  let ?s' = "fst (image_cb q c msg t1 t2 s)"
  let ?s1 = "s\<lparr>has_image := True, camera_image := Some msg, last_img_processed := t2\<rparr>"
  have "node_inv cfg ?s'"
    unfolding assms by (rule node_inv_image_cb [OF node_inv_run])
  then have a: "prev_light_loc ?s' = None" and b: "state ?s' \<noteq> PyFalse"
    by (simp_all add: node_inv_def)
  have c: "snd (get_light_state c ?s1 light) = Light (c (Some msg))"
    by (simp add: get_light_state_has_image)
  have d: "state ?s' = Light (c (Some msg))" if diff: "light_classifier ?s' \<noteq> light_classifier s"
  proof (cases "waypoint_tree s = None \<or> t1 - last_img_processed s < CAMERA_IMG_PROCESS_RATE")
    case True
    then show ?thesis using diff by (simp add: image_cb_rejected)
  next
    case False
    then have acc: "waypoint_tree s \<noteq> None"
      "\<not> t1 - last_img_processed s < CAMERA_IMG_PROCESS_RATE" by auto
    show ?thesis
    proof (cases "process_traffic_lights q c ?s1")
      case (Inl e)
      then show ?thesis using diff by (simp add: image_cb_accepted [OF acc])
    next
      case (Inr r)
      obtain s2 w st where r: "r = (s2, w, st)" by (cases r) auto
      have eq: "process_traffic_lights q c ?s1 = Inr (s2, w, st)" using Inr r by simp
      have s': "?s' = publish_state w st s2" by (simp add: image_cb_accepted [OF acc] eq)
      have "light_classifier s2 \<noteq> light_classifier ?s1"
        using diff s' publish_state_classifier [of w st s2] by simp
      with ptl_cases [OF eq] obtain l where "get_light_state c ?s1 l = (s2, st)" by auto
      then have "st = Light (c (Some msg))" by (simp add: get_light_state_has_image)
      then show ?thesis using s' by (simp add: publish_state_state)
    qed
  qed
  from a b c d show ?thesis by blast
qed

theorem get_light_state_from_image_cb_witness:
  "light_classifier (fst (image_cb scan_query sees_red 0 1 1
       (run list_tree scan_query sees_red [(2, 0)] demo_start)))
     \<noteq> light_classifier (run list_tree scan_query sees_red [(2, 0)] demo_start)
   \<and> state (fst (image_cb scan_query sees_red 0 1 1
       (run list_tree scan_query sees_red [(2, 0)] demo_start))) = Light (sees_red (Some 0))
   \<and> prev_light_loc (fst (image_cb scan_query sees_red 0 1 1
       (run list_tree scan_query sees_red [(2, 0)] demo_start))) = None"
proof -
  have h: "light_classifier (fst (image_cb scan_query sees_red 0 1 1
       (run list_tree scan_query sees_red [(2, 0)] demo_start)))
     \<noteq> light_classifier (run list_tree scan_query sees_red [(2, 0)] demo_start)"
    by (simp add: run_demo_start demo_first_image) (simp add: demo_node_eq)
  from get_light_state_from_image_cb
    [where K = list_tree and q = scan_query and c = sees_red and cfg = "[(2, 0)]"
       and evs = demo_start and msg = 0 and ?t1.0 = 1 and ?t2.0 = 1, OF refl]
  show ?thesis using h by blast
qed

end
